theory Spec2Isabelle
  imports Complex_Main "HOL-Library.Char_ord" "HOL-Library.List_Lexorder"
begin

section \<open>Python values and exceptions\<close>

text \<open>
  The activity database of tracs (\<^verbatim>\<open>tracs/db.py\<close>, \<^verbatim>\<open>tracs/activity.py\<close>) is Python:
  attributes hold dynamically typed values and are read and written by name
  (\<^verbatim>\<open>getattr\<close>, \<^verbatim>\<open>setattr\<close>). Values are modelled by one datatype. Floats are
  idealised as reals: rounding is not modelled. \<open>PObj\<close> stands for an object without
  \<^verbatim>\<open>__bool__\<close>/\<^verbatim>\<open>__len__\<close> (a datetime, a time, an enum member, a dataclass instance).
\<close>

datatype pyval =
    PNone
  | PBool bool
  | PInt int
  | PFloat real
  | PStr string
  | PList "pyval list"
  | PDict "(string \<times> pyval) list"
  | PObj string

datatype error =
    IndexError | KeyError | ValueError | TypeError | RuntimeError
  | NameError | AttributeError | NotADirectoryError

text \<open>Python's truth value of an object, as tested by \<^verbatim>\<open>if value:\<close> and \<^verbatim>\<open>x or y\<close>.\<close>

fun truthy :: "pyval \<Rightarrow> bool" where
  "truthy PNone = False"
| "truthy (PBool b) = b"
| "truthy (PInt i) = (i \<noteq> 0)"
| "truthy (PFloat r) = (r \<noteq> 0)"
| "truthy (PStr s) = (s \<noteq> [])"
| "truthy (PList xs) = (xs \<noteq> [])"
| "truthy (PDict kvs) = (kvs \<noteq> [])"
| "truthy (PObj n) = True"

section \<open>Id allocation\<close>

text \<open>
  \<^verbatim>\<open>
  def _next_id( self, d: Dict ) -> int:
      key_range = range( 1, max( d.keys() ) + 2 ) if d.keys() else [1]
      return set( key_range ).difference( set( d.keys() ) ).pop()
  \<close>
  A dict is an association list in insertion order. \<^verbatim>\<open>set.pop()\<close> removes and returns
  an arbitrary element of the set and raises KeyError on the empty set; which element is
  the runtime's choice, so it is a parameter \<open>pop\<close> that is handed the elements of the
  set in ascending order (a set has no other structure to choose from).
\<close>

definition keys :: "(int \<times> 'v) list \<Rightarrow> int list" where
  "keys d = map fst d"

definition key_range :: "(int \<times> 'v) list \<Rightarrow> int list" where
  "key_range d = (case keys d of [] \<Rightarrow> [1] | k # ks \<Rightarrow> [1 .. fold max ks k + 1])"

definition candidates :: "(int \<times> 'v) list \<Rightarrow> int list" where
  "candidates d = filter (\<lambda>k. k \<notin> set (keys d)) (key_range d)"

definition next_id :: "(int list \<Rightarrow> int) \<Rightarrow> (int \<times> 'v) list \<Rightarrow> error + int" where
  "next_id pop d = (case candidates d of [] \<Rightarrow> Inl KeyError | c # cs \<Rightarrow> Inr (pop (c # cs)))"

text \<open>The contract of \<^verbatim>\<open>set.pop()\<close>: the result is an element of the (non-empty) set.\<close>

definition pop_contract :: "(int list \<Rightarrow> int) \<Rightarrow> bool" where
  "pop_contract pop = (\<forall>xs. xs \<noteq> [] \<longrightarrow> pop xs \<in> set xs)"

text \<open>
  An instance, \<open>pop_slot\<close>: what CPython does for a set of at most four small
  non-negative integers with distinct residues modulo 8. A fresh set has a table of eight
  slots, an integer hashes to itself and lands in slot \<open>k mod 8\<close>, and \<^verbatim>\<open>pop\<close> scans
  the table from slot 0.
\<close>

definition pop_slot :: "int list \<Rightarrow> int" where
  "pop_slot xs = fold (\<lambda>x best. if x mod 8 < best mod 8 then x else best) (tl xs) (hd xs)"

section \<open>The activity record\<close>

text \<open>
  \<^verbatim>\<open>Activity\<close> is a dataclass whose merge code walks \<^verbatim>\<open>fields( self )\<close> and reads and
  writes attributes by name. An activity is therefore a function from attribute names to
  values; \<open>activity_fields\<close> lists the dataclass fields in declaration order (the three
  \<^verbatim>\<open>InitVar\<close> pseudo-fields \<^verbatim>\<open>others\<close>, \<^verbatim>\<open>other_parts\<close> and \<^verbatim>\<open>force\<close> are not fields).
\<close>

type_synonym activity = "string \<Rightarrow> pyval"

definition getattr :: "activity \<Rightarrow> string \<Rightarrow> pyval" where
  "getattr a n = a n"

definition setattr :: "activity \<Rightarrow> string \<Rightarrow> pyval \<Rightarrow> activity" where
  "setattr a n v = a(n := v)"

definition activity_fields :: "string list" where
  "activity_fields =
    [''id'', ''classifier'', ''uid'', ''uids'', ''raw'', ''raw_id'', ''raw_name'', ''raw_data'',
     ''local_id'', ''name'', ''type'', ''description'', ''tags'', ''equipment'',
     ''location_country'', ''location_state'', ''location_city'', ''location_place'',
     ''location_latitude_start'', ''location_longitude_start'', ''location_latitude_end'',
     ''location_longitude_end'', ''route'', ''time'', ''time_end'', ''localtime'',
     ''localtime_end'', ''timezone'', ''duration'', ''duration_moving'', ''distance'',
     ''ascent'', ''descent'', ''elevation_max'', ''elevation_min'', ''speed'', ''speed_max'',
     ''heartrate'', ''heartrate_max'', ''heartrate_min'', ''calories'', ''resources'', ''parts'',
     ''__dirty__'', ''__metadata__'', ''__parts__'', ''__resources__'', ''__parent_id__'',
     ''__vf__'']"

text \<open>
  The field defaults: \<^verbatim>\<open>id\<close> and \<^verbatim>\<open>__parent_id__\<close> are 0, the list fields are empty
  lists, \<^verbatim>\<open>timezone\<close> is the local zone name (a parameter), \<^verbatim>\<open>__vf__\<close> is a
  \<^verbatim>\<open>VirtualFields\<close> object, every other field is None.
\<close>

definition default_activity :: "string \<Rightarrow> activity" where
  "default_activity tz = (\<lambda>n.
     if n = ''id'' \<or> n = ''__parent_id__'' then PInt 0
     else if n \<in> set [''uids'', ''tags'', ''equipment'', ''resources'', ''parts'', ''__parts__'',
                        ''__resources__''] then PList []
     else if n = ''timezone'' then PStr tz
     else if n = ''__dirty__'' then PBool False
     else if n = ''__metadata__'' then PDict []
     else if n = ''__vf__'' then PObj ''VirtualFields''
     else PNone)"

text \<open>
  \<^verbatim>\<open>
  for f in fields( self ):
      for o in others:
          if value := getattr( o, f.name ):
              if not f.metadata.get( PROTECTED, False ) or force:
                  setattr( self, f.name, value )
              if not force:
                  break
  \<close>
  The module \<^verbatim>\<open>tracs/activity.py\<close> neither defines nor imports the name
  \<^verbatim>\<open>PROTECTED\<close>: evaluating it raises NameError, before \<^verbatim>\<open>metadata.get\<close> is called.
  That happens at the first truthy value the loops find. No field of \<^verbatim>\<open>Activity\<close> is
  declared with metadata, so \<^verbatim>\<open>f.metadata.get( key, default )\<close> would be the default.
\<close>

definition PROTECTED :: "error + string" where
  "PROTECTED = Inl NameError"

definition metadata_get :: "string \<Rightarrow> string \<Rightarrow> bool \<Rightarrow> bool" where
  "metadata_get f key dflt = dflt"

fun others_loop :: "bool \<Rightarrow> string \<Rightarrow> activity \<Rightarrow> activity list \<Rightarrow> error + activity" where
  "others_loop force f self [] = Inr self"
| "others_loop force f self (other # rest) =
     (let val = getattr other f in
      if truthy val then
        (case PROTECTED of
           Inl e \<Rightarrow> Inl e
         | Inr key \<Rightarrow>
             (let self' = (if \<not> metadata_get f key False \<or> force then setattr self f val else self)
              in if \<not> force then Inr self' else others_loop force f self' rest))
      else others_loop force f self rest)"

fun fields_loop :: "bool \<Rightarrow> string list \<Rightarrow> activity \<Rightarrow> activity list \<Rightarrow> error + activity" where
  "fields_loop force [] self others = Inr self"
| "fields_loop force (f # fs) self others =
     (case others_loop force f self others of
        Inl e \<Rightarrow> Inl e
      | Inr self' \<Rightarrow> fields_loop force fs self' others)"

definition init_from_others :: "activity \<Rightarrow> activity list \<Rightarrow> bool \<Rightarrow> error + activity" where
  "init_from_others self others force = fields_loop force activity_fields self others"

subsection \<open>Arithmetic on values\<close>

text \<open>
  \<^verbatim>\<open>sum\<close> starts from the integer 0 and adds from the left, so the left operand of
  each addition is a number; adding anything that is not a number to it is a TypeError.
  \<^verbatim>\<open>max\<close> and \<^verbatim>\<open>min\<close> keep the first extreme element. Only numbers are ordered in
  this model: comparing other values is a TypeError (strings and lists, which Python
  orders among themselves, do not occur in the aggregated fields).
\<close>

datatype num = I int | F real

fun as_num :: "pyval \<Rightarrow> num option" where
  "as_num (PInt i) = Some (I i)"
| "as_num (PFloat r) = Some (F r)"
| "as_num (PBool b) = Some (I (if b then 1 else 0))"
| "as_num v = None"

fun num_val :: "num \<Rightarrow> real" where
  "num_val (I i) = of_int i"
| "num_val (F r) = r"

fun num_add :: "num \<Rightarrow> num \<Rightarrow> pyval" where
  "num_add (I a) (I b) = PInt (a + b)"
| "num_add a b = PFloat (num_val a + num_val b)"

definition py_add :: "pyval \<Rightarrow> pyval \<Rightarrow> error + pyval" where
  "py_add a b = (case (as_num a, as_num b) of
                   (Some x, Some y) \<Rightarrow> Inr (num_add x y)
                 | _ \<Rightarrow> Inl TypeError)"

fun sum_from :: "pyval \<Rightarrow> pyval list \<Rightarrow> error + pyval" where
  "sum_from acc [] = Inr acc"
| "sum_from acc (v # vs) = (case py_add acc v of Inl e \<Rightarrow> Inl e | Inr acc' \<Rightarrow> sum_from acc' vs)"

definition py_sum :: "pyval list \<Rightarrow> error + pyval" where
  "py_sum vs = sum_from (PInt 0) vs"

definition py_gt :: "pyval \<Rightarrow> pyval \<Rightarrow> error + bool" where
  "py_gt a b = (case (as_num a, as_num b) of
                  (Some x, Some y) \<Rightarrow> Inr (num_val x > num_val y)
                | _ \<Rightarrow> Inl TypeError)"

fun max_from :: "pyval \<Rightarrow> pyval list \<Rightarrow> error + pyval" where
  "max_from best [] = Inr best"
| "max_from best (v # vs) =
     (case py_gt v best of Inl e \<Rightarrow> Inl e
      | Inr b \<Rightarrow> max_from (if b then v else best) vs)"

fun min_from :: "pyval \<Rightarrow> pyval list \<Rightarrow> error + pyval" where
  "min_from best [] = Inr best"
| "min_from best (v # vs) =
     (case py_gt best v of Inl e \<Rightarrow> Inl e
      | Inr b \<Rightarrow> min_from (if b then v else best) vs)"

definition py_max :: "pyval list \<Rightarrow> error + pyval" where
  "py_max vs = (case vs of [] \<Rightarrow> Inl ValueError | v # rest \<Rightarrow> max_from v rest)"

definition py_min :: "pyval list \<Rightarrow> error + pyval" where
  "py_min vs = (case vs of [] \<Rightarrow> Inl ValueError | v # rest \<Rightarrow> min_from v rest)"

subsection \<open>Construction from parts\<close>

text \<open>
  \<^verbatim>\<open>
  self.distance = s if (s := sum( o.distance for o in other_parts if o.distance )) else None
  self.elevation_max = max( l ) if ( l := [o.elevation_max for o in other_parts
                                           if o.elevation_max is not None] ) else None
  \<close>
\<close>

definition sum_or_none :: "string \<Rightarrow> activity list \<Rightarrow> error + pyval" where
  "sum_or_none f other_parts =
     (case py_sum (filter truthy (map (\<lambda>p. getattr p f) other_parts)) of
        Inl e \<Rightarrow> Inl e
      | Inr s \<Rightarrow> Inr (if truthy s then s else PNone))"

definition not_none :: "string \<Rightarrow> activity list \<Rightarrow> pyval list" where
  "not_none f other_parts = filter (\<lambda>v. v \<noteq> PNone) (map (\<lambda>p. getattr p f) other_parts)"

definition max_or_none :: "string \<Rightarrow> activity list \<Rightarrow> error + pyval" where
  "max_or_none f other_parts =
     (let l = not_none f other_parts in if l \<noteq> [] then py_max l else Inr PNone)"

definition min_or_none :: "string \<Rightarrow> activity list \<Rightarrow> error + pyval" where
  "min_or_none f other_parts =
     (let l = not_none f other_parts in if l \<noteq> [] then py_min l else Inr PNone)"

text \<open>
  The assignments of \<^verbatim>\<open>__init_from_parts__\<close> run in order and the first one that raises
  ends the call. \<^verbatim>\<open>other_parts[0]\<close> raises IndexError on the empty list.
  \<^verbatim>\<open>sum_times\<close> comes from \<^verbatim>\<open>tracs.utils\<close> and is a parameter.
\<close>

fun assign_all :: "activity \<Rightarrow> (string \<times> (error + pyval)) list \<Rightarrow> error + activity" where
  "assign_all s [] = Inr s"
| "assign_all s ((f, c) # rest) =
     (case c of Inl e \<Rightarrow> Inl e | Inr v \<Rightarrow> assign_all (setattr s f v) rest)"

definition init_from_parts ::
  "(pyval list \<Rightarrow> error + pyval) \<Rightarrow> activity \<Rightarrow> activity list \<Rightarrow> bool \<Rightarrow> error + activity" where
  "init_from_parts sum_times self other_parts force =
     (case other_parts of
        [] \<Rightarrow> Inl IndexError
      | first # rest \<Rightarrow>
          assign_all self
            [(''time'', Inr (getattr first ''time'')),
             (''localtime'', Inr (getattr first ''localtime'')),
             (''time_end'', Inr (getattr (last other_parts) ''time_end'')),
             (''localtime_end'', Inr (getattr (last other_parts) ''localtime_end'')),
             (''timezone'', Inr (getattr first ''timezone'')),
             (''duration'', sum_times (map (\<lambda>p. getattr p ''duration'') other_parts)),
             (''duration_moving'', sum_times (map (\<lambda>p. getattr p ''duration_moving'') other_parts)),
             (''distance'', sum_or_none ''distance'' other_parts),
             (''ascent'', sum_or_none ''ascent'' other_parts),
             (''descent'', sum_or_none ''descent'' other_parts),
             (''elevation_max'', max_or_none ''elevation_max'' other_parts),
             (''elevation_min'', min_or_none ''elevation_min'' other_parts),
             (''speed_max'', max_or_none ''speed_max'' other_parts),
             (''heartrate_max'', max_or_none ''heartrate_max'' other_parts),
             (''heartrate_min'', min_or_none ''heartrate_min'' other_parts),
             (''calories'', sum_or_none ''calories'' other_parts)])"

text \<open>
  \<^verbatim>\<open>
  def __post_init__( self, others, other_parts, force ):
      if self.raw:            self.__raw_init__( self.raw )    # a no-op in Activity
      elif others:            self.__init_from_others__( others, force )
      elif other_parts:       self.__init_from_parts__( other_parts, force )
  \<close>
  \<open>Activity\<close> is the constructor: \<open>self\<close> holds the keyword arguments over the defaults.
\<close>

definition Activity ::
  "(pyval list \<Rightarrow> error + pyval) \<Rightarrow> activity \<Rightarrow> activity list \<Rightarrow> activity list \<Rightarrow> bool
     \<Rightarrow> error + activity" where
  "Activity sum_times self others other_parts force =
     (if truthy (getattr self ''raw'') then Inr self
      else if others \<noteq> [] then init_from_others self others force
      else if other_parts \<noteq> [] then init_from_parts sum_times self other_parts force
      else Inr self)"

subsection \<open>Union\<close>

text \<open>The strings of a list value; \<^verbatim>\<open>uids\<close> holds a list of strings (by default the
  empty list), and any other value is read as holding none.\<close>

fun strs :: "pyval list \<Rightarrow> string list" where
  "strs [] = []"
| "strs (PStr s # vs) = s # strs vs"
| "strs (v # vs) = strs vs"

definition uids_of :: "activity \<Rightarrow> string list" where
  "uids_of a = (case getattr a ''uids'' of PList vs \<Rightarrow> strs vs | _ \<Rightarrow> [])"

text \<open>
  Modelled from the spec: the method \<^verbatim>\<open>Activity.union( others, force, copy )\<close>, which
  \<^verbatim>\<open>upsert_activity\<close> and the tests call and \<^verbatim>\<open>tracs/activity.py\<close> does not define.
  The specification: for each mergeable field (everything except the protected field
  \<^verbatim>\<open>id\<close>) the sources are \<^verbatim>\<open>[self, *others]\<close> in order; without \<^verbatim>\<open>force\<close> the
  first non-null value is taken and protected fields are never touched; with \<^verbatim>\<open>force\<close>
  the last non-null value is taken, protected fields included; \<^verbatim>\<open>uids\<close> is the union of
  the uids of self and others, deduplicated and sorted. With \<^verbatim>\<open>copy=False\<close> self is
  mutated and returned, with \<^verbatim>\<open>copy=True\<close> a new record is returned and self is left as
  it is: \<open>union\<close> returns the pair of self afterwards and the result.
\<close>

definition non_null :: "pyval \<Rightarrow> bool" where
  "non_null v = (v \<noteq> PNone)"

definition first_non_null :: "pyval list \<Rightarrow> pyval \<Rightarrow> pyval" where
  "first_non_null vs dflt = (case find non_null vs of Some v \<Rightarrow> v | None \<Rightarrow> dflt)"

definition merged :: "activity \<Rightarrow> activity list \<Rightarrow> bool \<Rightarrow> activity" where
  "merged self others force = (\<lambda>f.
     if f = ''uids'' then PList (map PStr (sort (remdups (concat (map uids_of (self # others))))))
     else if f \<notin> set activity_fields then self f
     else if force then first_non_null (rev (map (\<lambda>s. getattr s f) (self # others))) (self f)
     else if f = ''id'' then self f
     else first_non_null (map (\<lambda>s. getattr s f) (self # others)) (self f))"

definition union :: "activity \<Rightarrow> activity list \<Rightarrow> bool \<Rightarrow> bool \<Rightarrow> activity \<times> activity" where
  "union self others force copy =
     (let r = merged self others force in if copy then (self, r) else (r, r))"

section \<open>Resources\<close>

text \<open>
  Modelled from the spec: the class \<^verbatim>\<open>Resource\<close> of \<^verbatim>\<open>tracs/resources.py\<close>, of which
  \<^verbatim>\<open>db.py\<close> uses the attributes \<^verbatim>\<open>id\<close>, \<^verbatim>\<open>uid\<close>, \<^verbatim>\<open>path\<close> and \<^verbatim>\<open>type\<close>; the
  specification adds the content and the download status.
\<close>

record resource =
  res_id :: int
  uid :: string
  path :: string
  rtype :: string
  content :: string
  status :: int

section \<open>The layered file system\<close>

text \<open>
  A layer maps a file name to its content and modification time. \<^verbatim>\<open>DB_FILES\<close> is a dict,
  iterated in insertion order.
\<close>

record db_file =
  text_of :: string
  modified :: int

type_synonym layer = "string \<rightharpoonup> db_file"

datatype fs_error = ResourceNotFound

definition DB_FILES :: "(string \<times> string) list" where
  "DB_FILES =
     [(''activities.json'', ''{}''), (''index.json'', ''{}''), (''metadata.json'', ''{}''),
      (''resources.json'', ''{}''), (''schema.json'', ''{'' @ [CHR 0x22] @ ''version'' @ [CHR 0x22] @ '': 12}'')]"

text \<open>
  \<^verbatim>\<open>fs.copy.copy_file_if( src_fs, src, dst_fs, dst, 'newer' )\<close> of the PyFilesystem
  library: the file is copied when the destination lacks it or the source was modified
  later than the destination, and left alone otherwise; a source that does not exist is
  a \<^verbatim>\<open>ResourceNotFound\<close> error. The copy is written at the time \<open>now\<close>.
\<close>

definition copy_file_if ::
  "layer \<Rightarrow> layer \<Rightarrow> string \<Rightarrow> int \<Rightarrow> fs_error + layer" where
  "copy_file_if src_fs dst_fs p now =
     (case src_fs p of
        None \<Rightarrow> Inl ResourceNotFound
      | Some f \<Rightarrow>
          (case dst_fs p of
             None \<Rightarrow> Inr (dst_fs(p \<mapsto> \<lparr>text_of = text_of f, modified = now\<rparr>))
           | Some g \<Rightarrow>
               if modified f > modified g
               then Inr (dst_fs(p \<mapsto> \<lparr>text_of = text_of f, modified = now\<rparr>))
               else Inr dst_fs))"

section \<open>The database\<close>

text \<open>
  Modelled from the spec: the containers \<^verbatim>\<open>Activities\<close> and \<^verbatim>\<open>Resources\<close>, which
  \<^verbatim>\<open>db.py\<close> imports and the sources do not define: in-memory mappings from integer id to
  record (\<^verbatim>\<open>d[k] = v\<close>, \<^verbatim>\<open>d.keys()\<close>, \<^verbatim>\<open>d.all()\<close>), iterated in insertion order.
  The three file-system modes all register an underlay layer and an overlay layer, so
  \<^verbatim>\<open>self.underlay_fs\<close> is a layer whether or not a path was given; it is kept as an option
  because \<^verbatim>\<open>save\<close> tests it against None.
\<close>

record db =
  db_path :: "string option"
  read_only :: bool
  underlay_fs :: "layer option"
  overlay_fs :: layer
  activities_map :: "(int \<times> activity) list"
  resources_map :: "(int \<times> resource) list"

definition setitem :: "(int \<times> 'v) list \<Rightarrow> int \<Rightarrow> 'v \<Rightarrow> (int \<times> 'v) list" where
  "setitem d k v = (if k \<in> set (keys d) then map (\<lambda>(k', v'). if k' = k then (k', v) else (k', v')) d
                    else d @ [(k, v)])"

definition activities :: "db \<Rightarrow> activity list" where
  "activities s = map snd (activities_map s)"

definition resources :: "db \<Rightarrow> resource list" where
  "resources s = map snd (resources_map s)"

text \<open>
  \<^verbatim>\<open>
  def _init_inmemory_filesystem( self, dbfs ):
      dbfs.add_fs( UNDERLAY, MemoryFS(), write=False )
      dbfs.add_fs( OVERLAY, MemoryFS(), write=True )
      for file, content in DB_FILES.items():
          self.underlay_fs.writetext( f'/{file}', content )
  \<close>
  The database opened without a path, before anything is loaded into it.
\<close>

definition init_inmemory_filesystem :: "int \<Rightarrow> db" where
  "init_inmemory_filesystem now =
     \<lparr>db_path = None, read_only = False,
      underlay_fs = Some (map_of (map (\<lambda>(n, c). (n, \<lparr>text_of = c, modified = now\<rparr>)) DB_FILES)),
      overlay_fs = Map.empty, activities_map = [], resources_map = []\<rparr>"

text \<open>
  \<^verbatim>\<open>
  def save( self ):
      if self._read_only or self.underlay_fs is None:
          return
      for f in DB_FILES:
          copy_file_if( self.overlay_fs, f'/{f}', self.underlay_fs, f'/{f}', 'newer' )
  \<close>
  The result is the error that ended the call, if any, and the database afterwards.
\<close>

fun save_files :: "layer \<Rightarrow> layer \<Rightarrow> string list \<Rightarrow> int \<Rightarrow> fs_error option \<times> layer" where
  "save_files src dst [] now = (None, dst)"
| "save_files src dst (f # rest) now =
     (case copy_file_if src dst f now of
        Inl e \<Rightarrow> (Some e, dst)
      | Inr dst' \<Rightarrow> save_files src dst' rest now)"

definition save :: "db \<Rightarrow> int \<Rightarrow> fs_error option \<times> db" where
  "save s now =
     (if read_only s \<or> underlay_fs s = None then (None, s)
      else (let (e, dst') = save_files (overlay_fs s) (the (underlay_fs s)) (map fst DB_FILES) now
            in (e, s\<lparr>underlay_fs := Some dst'\<rparr>)))"

subsection \<open>Insert and upsert\<close>

text \<open>
  \<^verbatim>\<open>
  def insert_activity( self, activity ):
      activity.id = self._next_id( self._activities )
      self._activities[activity.id] = activity
      return activity.id
  \<close>
\<close>

definition insert_activity :: "(int list \<Rightarrow> int) \<Rightarrow> db \<Rightarrow> activity \<Rightarrow> error + db \<times> int" where
  "insert_activity pop s a =
     (case next_id pop (activities_map s) of
        Inl e \<Rightarrow> Inl e
      | Inr k \<Rightarrow> Inr (s\<lparr>activities_map := setitem (activities_map s) k (setattr a ''id'' (PInt k))\<rparr>, k))"

text \<open>
  \<^verbatim>\<open>
  def get_activity_by_uids( self, uids ):
      return next( (a for a in self.activities if any( uid in a.uids for uid in uids ) ), None )
  \<close>
\<close>

definition shares_uid :: "string list \<Rightarrow> activity \<Rightarrow> bool" where
  "shares_uid us a = (\<exists>u \<in> set us. u \<in> set (uids_of a))"

definition get_activity_by_uids :: "db \<Rightarrow> string list \<Rightarrow> activity option" where
  "get_activity_by_uids s us = find (shares_uid us) (activities s)"

text \<open>
  \<^verbatim>\<open>
  def upsert_activity( self, activity: Activity ) -> int:
      if existing := self.get_activity_by_uids( activity.uids ):
          existing.union( others=[ activity ], copy = False )
          return existing.id
      else:
          self.insert_activity( activity )
  \<close>
  The existing activity is the stored object, so the union with \<^verbatim>\<open>copy=False\<close> changes
  the first stored entry that matches. The else branch has no \<^verbatim>\<open>return\<close>: the call
  returns None there.
\<close>

fun update_first :: "('v \<Rightarrow> bool) \<Rightarrow> ('v \<Rightarrow> 'v) \<Rightarrow> (int \<times> 'v) list \<Rightarrow> (int \<times> 'v) list" where
  "update_first P g [] = []"
| "update_first P g ((k, v) # d) = (if P v then (k, g v) # d else (k, v) # update_first P g d)"

definition upsert_activity :: "(int list \<Rightarrow> int) \<Rightarrow> db \<Rightarrow> activity \<Rightarrow> error + db \<times> pyval" where
  "upsert_activity pop s a =
     (case get_activity_by_uids s (uids_of a) of
        Some existing \<Rightarrow>
          Inr (s\<lparr>activities_map :=
                   update_first (shares_uid (uids_of a)) (\<lambda>e. fst (union e [a] False False))
                     (activities_map s)\<rparr>,
               getattr (fst (union existing [a] False False)) ''id'')
      | None \<Rightarrow>
          (case insert_activity pop s a of
             Inl e \<Rightarrow> Inl e
           | Inr (s', k) \<Rightarrow> Inr (s', PNone)))"





subsection \<open>Finding activities\<close>

text \<open>
  \<^verbatim>\<open>
  def find_by_classifier( self, classifier ):
      return [a for a in self.activities if any( uid.startswith( classifier ) for uid in a.uids ) ]

  def find_first( self, classifier = None ):
      activities = self.find_by_classifier( classifier ) if classifier else self.activities
      return min( activities, key=lambda a: a.starttime )
  \<close>
  \<^verbatim>\<open>min\<close> and \<^verbatim>\<open>max\<close> raise ValueError on an empty sequence; otherwise they call the
  key on every element, the first one included, and keep the first extreme element.
  \<^verbatim>\<open>Activity\<close> has no attribute \<^verbatim>\<open>starttime\<close> (no field, no property, no
  \<^verbatim>\<open>__getattr__\<close>), so the key raises AttributeError.
\<close>

definition startswith :: "string \<Rightarrow> string \<Rightarrow> bool" where
  "startswith s p = (take (length p) s = p)"

definition find_by_classifier :: "db \<Rightarrow> string \<Rightarrow> activity list" where
  "find_by_classifier s classifier =
     filter (\<lambda>a. \<exists>u \<in> set (uids_of a). startswith u classifier) (activities s)"

definition starttime :: "activity \<Rightarrow> error + int" where
  "starttime a = Inl AttributeError"

fun best_by :: "(int \<Rightarrow> int \<Rightarrow> bool) \<Rightarrow> ('a \<Rightarrow> error + int) \<Rightarrow> 'a \<Rightarrow> int \<Rightarrow> 'a list \<Rightarrow> error + 'a" where
  "best_by better key best kbest [] = Inr best"
| "best_by better key best kbest (a # rest) =
     (case key a of
        Inl e \<Rightarrow> Inl e
      | Inr k \<Rightarrow> if better k kbest then best_by better key a k rest
                 else best_by better key best kbest rest)"

definition min_by :: "('a \<Rightarrow> error + int) \<Rightarrow> 'a list \<Rightarrow> error + 'a" where
  "min_by key xs =
     (case xs of
        [] \<Rightarrow> Inl ValueError
      | x # rest \<Rightarrow> (case key x of Inl e \<Rightarrow> Inl e | Inr k \<Rightarrow> best_by (<) key x k rest))"

definition max_by :: "('a \<Rightarrow> error + int) \<Rightarrow> 'a list \<Rightarrow> error + 'a" where
  "max_by key xs =
     (case xs of
        [] \<Rightarrow> Inl ValueError
      | x # rest \<Rightarrow> (case key x of Inl e \<Rightarrow> Inl e | Inr k \<Rightarrow> best_by (>) key x k rest))"

definition selected :: "db \<Rightarrow> string option \<Rightarrow> activity list" where
  "selected s classifier =
     (case classifier of
        None \<Rightarrow> activities s
      | Some c \<Rightarrow> if c \<noteq> [] then find_by_classifier s c else activities s)"

definition find_first :: "db \<Rightarrow> string option \<Rightarrow> error + activity" where
  "find_first s classifier = min_by starttime (selected s classifier)"

definition find_last :: "db \<Rightarrow> string option \<Rightarrow> error + activity" where
  "find_last s classifier = max_by starttime (selected s classifier)"

section \<open>Backup and restore\<close>

text \<open>
  \<^verbatim>\<open>
  def restore_db( ctx: ApplicationContext ) -> None:
      target = ctx.db_path
      try:
          source = sorted( list( ctx.backup_path.glob( '[0-9]*_[0-9]*' ) ), key=lambda p: p.name )[-1]
          if ctx.force or confirm( f'Restore database from {source}? ...' ):
              copytree( source, target, ignore=lambda root, content:
                          [c for c in content if c not in DB_FILES.keys()], dirs_exist_ok=True )
              log.info( f"database restored from {source}" )
      except RuntimeError:
          log.error( 'failed to restore backup', exc_info=True )
          ctx.console.print( f'no backups found in {ctx.backup_path}' )
  \<close>
  The world outside the database: the names of the entries of each directory, the files
  of each directory, and the lines printed on the console. \<^verbatim>\<open>confirm\<close> is the user's
  answer, or the exception it raises when the prompt is aborted (\<^verbatim>\<open>click.Abort\<close>, a
  RuntimeError). \<^verbatim>\<open>xs[-1]\<close> raises IndexError on the empty list. The pattern matches
  files as well as directories, and \<^verbatim>\<open>copytree\<close> raises NotADirectoryError when its
  source is not a directory.
\<close>

record ctx =
  ctx_db_path :: string
  ctx_backup_path :: string
  ctx_force :: bool

record world =
  listing :: "string \<Rightarrow> string list"
  is_dir :: "string \<Rightarrow> bool"
  files :: "string \<Rightarrow> (string \<rightharpoonup> string)"
  console :: "string list"

definition is_digit :: "char \<Rightarrow> bool" where
  "is_digit c = (CHR ''0'' \<le> c \<and> c \<le> CHR ''9'')"

text \<open>The pattern \<^verbatim>\<open>[0-9]*_[0-9]*\<close>: a digit, anything, an underscore, a digit, anything.\<close>

fun underscore_digit :: "string \<Rightarrow> bool" where
  "underscore_digit (c # d # cs) = ((c = CHR ''_'' \<and> is_digit d) \<or> underscore_digit (d # cs))"
| "underscore_digit cs = False"

definition glob_match :: "string \<Rightarrow> bool" where
  "glob_match name = (case name of [] \<Rightarrow> False | c # cs \<Rightarrow> is_digit c \<and> underscore_digit cs)"

definition last_item :: "'a list \<Rightarrow> error + 'a" where
  "last_item xs = (if xs = [] then Inl IndexError else Inr (last xs))"

definition copytree :: "world \<Rightarrow> string \<Rightarrow> string \<Rightarrow> error + world" where
  "copytree w source target =
     (if \<not> is_dir w source then Inl NotADirectoryError
      else Inr (w\<lparr>files := (files w)(target := files w target ++ (files w source |` set (map fst DB_FILES)))\<rparr>))"

definition restore_attempt :: "ctx \<Rightarrow> (error + bool) \<Rightarrow> world \<Rightarrow> error + world" where
  "restore_attempt c confirm w =
     (case last_item (sort (filter glob_match (listing w (ctx_backup_path c)))) of
        Inl e \<Rightarrow> Inl e
      | Inr name \<Rightarrow>
          (let source = ctx_backup_path c @ ''/'' @ name in
           if ctx_force c then copytree w source (ctx_db_path c)
           else (case confirm of
                   Inl e \<Rightarrow> Inl e
                 | Inr yes \<Rightarrow> if yes then copytree w source (ctx_db_path c) else Inr w)))"

definition restore_db :: "ctx \<Rightarrow> (error + bool) \<Rightarrow> world \<Rightarrow> error option \<times> world" where
  "restore_db c confirm w =
     (case restore_attempt c confirm w of
        Inr w' \<Rightarrow> (None, w')
      | Inl e \<Rightarrow>
          if e = RuntimeError
          then (None, w\<lparr>console := console w @ [''no backups found in '' @ ctx_backup_path c]\<rparr>)
          else (Some e, w))"

section \<open>Concrete inputs\<close>

text \<open>Activities, databases and directories that the closed theorems below evaluate.\<close>

definition with_uids :: "string list \<Rightarrow> activity" where
  "with_uids us = setattr (default_activity ''UTC'') ''uids'' (PList (map PStr us))"

definition empty_db :: db where
  "empty_db = init_inmemory_filesystem 0"

definition mixed_db :: db where
  "mixed_db = empty_db\<lparr>activities_map :=
     [(1, setattr (with_uids [''polarsteps:7'']) ''id'' (PInt 1)),
      (2, setattr (with_uids [''strava:8'']) ''id'' (PInt 2))]\<rparr>"

definition no_backups :: world where
  "no_backups = \<lparr>listing = (\<lambda>d. if d = ''/backup'' then [''readme.txt''] else []),
                 is_dir = (\<lambda>d. d = ''/backup'' \<or> d = ''/db''),
                 files = (\<lambda>d. Map.empty), console = []\<rparr>"

definition restore_ctx :: ctx where
  "restore_ctx = \<lparr>ctx_db_path = ''/db'', ctx_backup_path = ''/backup'', ctx_force = True\<rparr>"

definition zero_calories :: activity where
  "zero_calories = setattr (setattr (with_uids [''polar:1'']) ''id'' (PInt 1)) ''calories'' (PInt 0)"

definition five_calories :: activity where
  "five_calories = setattr (setattr (with_uids [''strava:2'']) ''id'' (PInt 2)) ''calories'' (PInt 5)"




definition committed_db :: db where
  "committed_db = empty_db\<lparr>overlay_fs := [''activities.json'' \<mapsto> \<lparr>text_of = ''{1: {}}'', modified = 1\<rparr>]\<rparr>"

definition mirrored_db :: db where
  "mirrored_db = empty_db\<lparr>overlay_fs :=
     (the (underlay_fs empty_db))(''activities.json'' \<mapsto> \<lparr>text_of = ''{1: {}}'', modified = 1\<rparr>)\<rparr>"

section \<open>Properties of id allocation\<close>

lemma fold_max_eq: "fold max ks (k::int) = Max (set (k # ks))"
  by (rule Max.set_eq_fold[symmetric])

lemma key_range_nonempty:
  assumes "keys d = k # ks"
  shows "set (key_range d) = {1 .. Max (set (keys d)) + 1}"
  using assms by (simp add: key_range_def fold_max_eq)

lemma set_candidates_nonempty:
  assumes "keys d = k # ks"
  shows "set (candidates d) = {1 .. Max (set (keys d)) + 1} - set (keys d)"
  using key_range_nonempty[OF assms] by (auto simp: candidates_def)

lemma candidates_empty_keys:
  assumes "keys d = []"
  shows "candidates d = [1]"
  using assms by (simp add: candidates_def key_range_def)

lemma top_candidate:
  assumes "keys d = k # ks" and "\<forall>j \<in> set (keys d). 1 \<le> j"
  shows "Max (set (keys d)) + 1 \<in> set (candidates d)"
proof -
  let ?m = "Max (set (keys d))"
  have fin: "finite (set (keys d))" by simp
  have "?m \<in> set (keys d)" using assms(1) Max_in[OF fin] by auto
  hence "1 \<le> ?m" using assms(2) by blast
  moreover have "?m + 1 \<notin> set (keys d)"
  proof
    assume "?m + 1 \<in> set (keys d)"
    hence "?m + 1 \<le> ?m" using Max_ge[OF fin] by blast
    thus False by simp
  qed
  ultimately show ?thesis using set_candidates_nonempty[OF assms(1)] by simp
qed


lemma pop_slot_contract: "pop_contract pop_slot"
proof -
  have "fold (\<lambda>x best. if x mod 8 < best mod 8 then x else best) xs (b::int) \<in> set (b # xs)" for xs b
    by (induction xs arbitrary: b) auto
  hence "pop_slot xs \<in> set xs" if "xs \<noteq> []" for xs
    using that unfolding pop_slot_def by (cases xs) (simp, fastforce)
  thus ?thesis by (simp add: pop_contract_def)
qed

text \<open>
  Claim C4, as the code has it. For a dict with positive integer keys, \<^verbatim>\<open>_next_id\<close>
  returns (it does not raise) a positive integer that is not a key and is at most the
  largest key plus one; it is 1 for the empty dict and \<open>n + 1\<close> when the keys are exactly
  \<open>1..n\<close>. Which unused integer it is when there are several is the choice of
  \<^verbatim>\<open>set.pop()\<close>: any \<open>pop\<close> that returns an element of its set.
\<close>

theorem next_id_unused:
  assumes "pop_contract pop" and "\<forall>j \<in> set (keys d). 1 \<le> j"
  shows "\<exists>k. next_id pop d = Inr k \<and> 1 \<le> k \<and> k \<notin> set (keys d)
           \<and> (keys d = [] \<longrightarrow> k = 1)
           \<and> (keys d \<noteq> [] \<longrightarrow> k \<le> Max (set (keys d)) + 1)
           \<and> (\<forall>n. 0 \<le> n \<and> set (keys d) = {1..n} \<longrightarrow> k = n + 1)"
proof (cases "keys d")
  case Nil
  hence c: "candidates d = [1]" by (rule candidates_empty_keys)
  have "pop [1] \<in> set [1]" using assms(1) unfolding pop_contract_def by blast
  hence "pop [1] = 1" by simp
  hence "next_id pop d = Inr 1" by (simp add: next_id_def c)
  moreover have "n = 0" if "0 \<le> n" and "set (keys d) = {1..n}" for n :: int
    using that Nil by simp
  ultimately show ?thesis using Nil by auto
next
  case (Cons k0 ks)
  let ?m = "Max (set (keys d))"
  have ne: "candidates d \<noteq> []" using top_candidate[OF Cons assms(2)] by auto
  then obtain c cs where c: "candidates d = c # cs" by (cases "candidates d") auto
  have "pop (c # cs) \<in> set (c # cs)" using assms(1) unfolding pop_contract_def by blast
  hence "pop (c # cs) \<in> set (candidates d)" by (simp only: c)
  hence mem: "pop (c # cs) \<in> {1 .. ?m + 1} - set (keys d)"
    by (simp only: set_candidates_nonempty[OF Cons])
  have r: "next_id pop d = Inr (pop (c # cs))" by (simp add: next_id_def c)
  have gap: "pop (c # cs) = n + 1" if "0 \<le> n" and "set (keys d) = {1..n}" for n
  proof -
    have "k0 \<in> {1..n}" using that(2) Cons by (metis list.set_intros(1))
    hence "1 \<le> n" by simp
    hence "Max {1..n} = n" by (intro Max_eqI) auto
    hence "?m = n" using that(2) by simp
    thus ?thesis using mem that(2) by auto
  qed
  show ?thesis using r mem gap Cons by auto
qed

theorem next_id_unused_witness:
  "\<exists>k. next_id pop_slot [(1::int, ()), (2, ()), (4, ())] = Inr k \<and> 1 \<le> k \<and> k \<notin> {1, 2, 4} \<and> k \<le> 5"
  using next_id_unused [OF pop_slot_contract, of "[(1::int, ()), (2, ()), (4, ())]"]
  by (auto simp: keys_def)

text \<open>
  Claim C4 as stated fails: with the keys 2..7 the unused candidates are 1 and 8, and the
  table order of CPython pops 8 (slot 0) before 1 (slot 1).
\<close>

theorem next_id_not_smallest:
  "next_id pop_slot [(2::int, ()), (3, ()), (4, ()), (5, ()), (6, ()), (7, ())] = Inr 8
   \<and> (1::int) \<notin> set (keys [(2::int, ()), (3, ()), (4, ()), (5, ()), (6, ()), (7, ())])"
  by (simp add: next_id_def candidates_def key_range_def keys_def pop_slot_def upto.simps)


section \<open>Finding, upserting and restoring: evaluations\<close>

lemma uids_of_with_uids: "uids_of (with_uids us) = us"
  by (induction us) (simp_all add: uids_of_def with_uids_def getattr_def setattr_def)

lemma next_id_nil: "next_id pop_slot ([] :: (int \<times> 'v) list) = Inr 1"
  by (simp add: next_id_def candidates_def key_range_def keys_def pop_slot_def)

text \<open>
  Claim C10. On a database without activities, \<^verbatim>\<open>find_first()\<close> and \<^verbatim>\<open>find_last()\<close>
  called without a classifier do not return None: \<^verbatim>\<open>min\<close> and \<^verbatim>\<open>max\<close> over the empty
  sequence raise ValueError.
\<close>

theorem find_first_last_empty:
  assumes "activities s = []"
  shows "find_first s None = Inl ValueError \<and> find_last s None = Inl ValueError"
  using assms by (simp add: find_first_def find_last_def selected_def min_by_def max_by_def)

theorem find_first_last_empty_witness:
  "find_first empty_db None = Inl ValueError \<and> find_last empty_db None = Inl ValueError"
  using find_first_last_empty [of empty_db]
  by (simp add: empty_db_def init_inmemory_filesystem_def activities_def)

text \<open>
  Claim C1, at the input where the code departs from it. On the empty database
  \<^verbatim>\<open>upsert_activity\<close> finds no stored activity sharing a uid, inserts the activity under
  the id 1, and returns None, where \<^verbatim>\<open>insert_activity\<close> returns the id 1.
\<close>

theorem upsert_activity_returns_none:
  "upsert_activity pop_slot empty_db (with_uids [''polar:1''])
     = Inr (empty_db\<lparr>activities_map := [(1, setattr (with_uids [''polar:1'']) ''id'' (PInt 1))]\<rparr>, PNone)
   \<and> insert_activity pop_slot empty_db (with_uids [''polar:1''])
     = Inr (empty_db\<lparr>activities_map := [(1, setattr (with_uids [''polar:1'']) ''id'' (PInt 1))]\<rparr>, 1)"
  by (simp add: upsert_activity_def get_activity_by_uids_def activities_def empty_db_def
      init_inmemory_filesystem_def insert_activity_def next_id_nil setitem_def keys_def)

text \<open>
  Claim C5, at the inputs where the code departs from it. When no entry of the backup
  directory matches the pattern, \<^verbatim>\<open>restore_db\<close> raises IndexError to its caller and
  prints nothing: the handler catches RuntimeError only.
\<close>

theorem restore_db_no_backups:
  assumes "filter glob_match (listing w (ctx_backup_path c)) = []"
  shows "restore_db c confirm w = (Some IndexError, w)"
  using assms by (simp add: restore_db_def restore_attempt_def last_item_def)

theorem restore_db_no_backups_witness:
  "restore_db restore_ctx (Inr True) no_backups = (Some IndexError, no_backups)"
  using restore_db_no_backups [of no_backups restore_ctx "Inr True"]
  by (simp add: no_backups_def restore_ctx_def glob_match_def is_digit_def)

text \<open>
  Claim C9, at the input where the code departs from it. \<^verbatim>\<open>find_by_classifier('polar')\<close>
  returns the activity whose only uid is \<^verbatim>\<open>polarsteps:7\<close>: the test is
  \<^verbatim>\<open>uid.startswith('polar')\<close>, without the colon, and no uid of that activity starts with
  \<^verbatim>\<open>polar:\<close>.
\<close>

theorem find_by_classifier_prefix:
  "find_by_classifier mixed_db ''polar'' = [setattr (with_uids [''polarsteps:7'']) ''id'' (PInt 1)]
   \<and> \<not> (\<exists>u \<in> set (uids_of (setattr (with_uids [''polarsteps:7'']) ''id'' (PInt 1))). startswith u ''polar:'')"
  by (simp add: find_by_classifier_def mixed_db_def activities_def uids_of_def with_uids_def
      getattr_def setattr_def startswith_def)

section \<open>Union of activities\<close>

lemma strs_map_PStr: "strs (map PStr us) = us"
  by (induction us) simp_all

lemma uids_of_merged:
  "uids_of (merged self others force) = sort (remdups (concat (map uids_of (self # others))))"
proof -
  have h: "getattr (merged self others force) ''uids''
             = PList (map PStr (sort (remdups (concat (map uids_of (self # others))))))"
    by (simp add: merged_def getattr_def)
  show ?thesis
    by (subst uids_of_def) (simp only: h pyval.case strs_map_PStr)
qed

lemma id_is_field: "''id'' \<in> set activity_fields"
  by (simp add: activity_fields_def)

text \<open>
  Claim C3. Merging \<open>b\<close> into \<open>a\<close> with \<^verbatim>\<open>union( force=False )\<close> yields a record whose uids
  are the uids of \<open>a\<close> and of \<open>b\<close> together, sorted and without duplicates, and whose id is
  the id of \<open>a\<close>; this holds whether or not the two share a uid, and for either value of
  \<^verbatim>\<open>copy\<close>.
\<close>

theorem union_uids_and_id:
  "set (uids_of (snd (union a [b] False copy))) = set (uids_of a) \<union> set (uids_of b)
   \<and> sorted (uids_of (snd (union a [b] False copy)))
   \<and> distinct (uids_of (snd (union a [b] False copy)))
   \<and> getattr (snd (union a [b] False copy)) ''id'' = getattr a ''id''"
proof -
  have r: "snd (union a [b] False copy) = merged a [b] False"
    by (simp add: union_def Let_def)
  have "getattr (merged a [b] False) ''id'' = getattr a ''id''"
    by (simp add: merged_def getattr_def id_is_field)
  thus ?thesis by (simp add: r uids_of_merged)
qed


section \<open>Construction from other activities\<close>

lemma others_loop_raises:
  "others_loop force f self others =
     (if \<exists>x \<in> set others. truthy (getattr x f) then Inl NameError else Inr self)"
  by (induction others) (simp_all add: Let_def PROTECTED_def)

lemma fields_loop_raises:
  "fields_loop force fs self others =
     (if \<exists>f \<in> set fs. \<exists>x \<in> set others. truthy (getattr x f) then Inl NameError else Inr self)"
  by (induction fs) (simp_all add: others_loop_raises)

text \<open>
  Claim C2, at the inputs where the code departs from it. Constructing an activity from
  a list of others (no raw data) in which some field of some source holds a truthy value
  does not produce a merged record: it raises NameError, for either value of
  \<^verbatim>\<open>force\<close>, since the loop evaluates the unbound name \<^verbatim>\<open>PROTECTED\<close> at the first
  truthy value it meets. Every constructed activity has a truthy \<^verbatim>\<open>__vf__\<close>, so every
  non-empty list of activities is such an input.
\<close>

theorem init_from_others_name_error:
  assumes "\<not> truthy (getattr self ''raw'')"
    and "\<exists>f \<in> set activity_fields. \<exists>x \<in> set others. truthy (getattr x f)"
  shows "Activity sum_times self others other_parts force = Inl NameError"
proof -
  have "others \<noteq> []" using assms(2) by auto
  moreover have "init_from_others self others force = Inl NameError"
    using assms(2) by (simp add: init_from_others_def fields_loop_raises)
  ultimately show ?thesis using assms(1) by (simp add: Activity_def)
qed

theorem init_from_others_name_error_witness:
  "Activity (\<lambda>vs. Inr PNone) (default_activity ''UTC'') [zero_calories, five_calories] [] False
     = Inl NameError"
proof -
  have raw: "\<not> truthy (getattr (default_activity ''UTC'') ''raw'')"
    by (simp add: default_activity_def getattr_def)
  have "''id'' \<in> set activity_fields" by (simp add: activity_fields_def)
  moreover have "truthy (getattr zero_calories ''id'')"
    by (simp add: zero_calories_def setattr_def getattr_def)
  ultimately have ex: "\<exists>f \<in> set activity_fields. \<exists>x \<in> set [zero_calories, five_calories]. truthy (getattr x f)"
    by auto
  show ?thesis by (rule init_from_others_name_error [OF raw ex])
qed


section \<open>Upserting resources\<close>













section \<open>Saving the overlay\<close>

lemma copy_file_if_present:
  assumes "src f = Some x"
  shows "copy_file_if src dst f now =
     Inr (if (case dst f of None \<Rightarrow> True | Some g \<Rightarrow> modified g < modified x)
          then dst(f \<mapsto> \<lparr>text_of = text_of x, modified = now\<rparr>) else dst)"
  using assms by (simp add: copy_file_if_def split: option.splits)

lemma save_files_result:
  assumes "\<forall>f \<in> set fs. src f \<noteq> None" and "distinct fs"
  shows "save_files src dst fs now =
     (None, \<lambda>f. if f \<in> set fs \<and> (case dst f of None \<Rightarrow> True | Some g \<Rightarrow> modified g < modified (the (src f)))
                 then Some \<lparr>text_of = text_of (the (src f)), modified = now\<rparr> else dst f)"
  using assms
proof (induction fs arbitrary: dst)
  case Nil
  then show ?case by simp
next
  case (Cons f fs)
  obtain x where x: "src f = Some x" using Cons.prems(1) by auto
  let ?dst1 = "if (case dst f of None \<Rightarrow> True | Some g \<Rightarrow> modified g < modified x)
               then dst(f \<mapsto> \<lparr>text_of = text_of x, modified = now\<rparr>) else dst"
  have nf: "f \<notin> set fs" and d: "distinct fs" and pres: "\<forall>f \<in> set fs. src f \<noteq> None"
    using Cons.prems by simp_all
  have same: "?dst1 g = dst g" if "g \<in> set fs" for g
    using that nf by auto
  have "save_files src dst (f # fs) now = save_files src ?dst1 fs now"
    by (simp add: copy_file_if_present[of src f x dst now, OF x])
  also have "\<dots> = (None, \<lambda>g. if g \<in> set fs \<and> (case ?dst1 g of None \<Rightarrow> True | Some h \<Rightarrow> modified h < modified (the (src g)))
                 then Some \<lparr>text_of = text_of (the (src g)), modified = now\<rparr> else ?dst1 g)"
    by (rule Cons.IH[OF pres d])
  also have "\<dots> = (None, \<lambda>g. if g \<in> set (f # fs) \<and> (case dst g of None \<Rightarrow> True | Some h \<Rightarrow> modified h < modified (the (src g)))
                 then Some \<lparr>text_of = text_of (the (src g)), modified = now\<rparr> else dst g)"
  proof -
    have "(if g \<in> set fs \<and> (case ?dst1 g of None \<Rightarrow> True | Some h \<Rightarrow> modified h < modified (the (src g)))
                 then Some \<lparr>text_of = text_of (the (src g)), modified = now\<rparr> else ?dst1 g)
        = (if g \<in> set (f # fs) \<and> (case dst g of None \<Rightarrow> True | Some h \<Rightarrow> modified h < modified (the (src g)))
                 then Some \<lparr>text_of = text_of (the (src g)), modified = now\<rparr> else dst g)" for g
    proof (cases "g \<in> set fs")
      case True
      hence "g \<noteq> f" using nf by auto
      thus ?thesis using True same[OF True] by simp
    next
      case False
      show ?thesis
      proof (cases "g = f")
        case True
        show ?thesis unfolding True using nf x by (simp split: option.splits)
      next
        case False
        thus ?thesis using \<open>g \<notin> set fs\<close> by simp
      qed
    qed
    thus ?thesis by simp
  qed
  finally show ?case .
qed

lemma distinct_db_files: "distinct (map fst DB_FILES)"
  by (simp add: DB_FILES_def)

text \<open>
  Claim C7, as the code has it. \<^verbatim>\<open>save()\<close> changes nothing when the database is
  read-only. Otherwise, whether or not the database has a path, and provided the overlay
  holds the five database files, it returns normally, leaves the overlay as it is, and
  for each of the five files decides on its own: the overlay's file is written onto the
  underlay (at the time of the call) when the underlay lacks the file or the overlay's
  file was modified later; an underlay file with an equal or later modification time,
  and every other file of the underlay, is left untouched.
\<close>

theorem save_copies_newer:
  "(read_only s \<longrightarrow> save s now = (None, s)) \<and>
   (\<not> read_only s \<and> underlay_fs s = Some u
      \<and> (\<forall>f \<in> set (map fst DB_FILES). overlay_fs s f \<noteq> None) \<longrightarrow>
    save s now =
      (None, s\<lparr>underlay_fs := Some (\<lambda>f.
         if f \<in> set (map fst DB_FILES)
            \<and> (case u f of None \<Rightarrow> True | Some g \<Rightarrow> modified g < modified (the (overlay_fs s f)))
         then Some \<lparr>text_of = text_of (the (overlay_fs s f)), modified = now\<rparr>
         else u f)\<rparr>))"
proof (intro conjI impI)
  assume "read_only s"
  thus "save s now = (None, s)" by (simp add: save_def)
next
  assume a: "\<not> read_only s \<and> underlay_fs s = Some u
      \<and> (\<forall>f \<in> set (map fst DB_FILES). overlay_fs s f \<noteq> None)"
  hence pres: "\<forall>f \<in> set (map fst DB_FILES). overlay_fs s f \<noteq> None" by blast
  show "save s now =
      (None, s\<lparr>underlay_fs := Some (\<lambda>f.
         if f \<in> set (map fst DB_FILES)
            \<and> (case u f of None \<Rightarrow> True | Some g \<Rightarrow> modified g < modified (the (overlay_fs s f)))
         then Some \<lparr>text_of = text_of (the (overlay_fs s f)), modified = now\<rparr>
         else u f)\<rparr>)"
    using a by (simp add: save_def save_files_result[OF pres distinct_db_files])
qed

text \<open>
  Claim C7 as stated fails for a database without a path. Its underlay is a memory layer,
  not None, so \<^verbatim>\<open>save()\<close> does not return early: with a newer
  \<^verbatim>\<open>activities.json\<close> in the overlay (as after a commit) it overwrites the underlay's
  file, and then raises on \<^verbatim>\<open>index.json\<close>, which the overlay of an in-memory database
  does not hold.
\<close>

theorem save_inmemory_changes_underlay:
  "db_path committed_db = None
   \<and> fst (save committed_db 2) = Some ResourceNotFound
   \<and> the (underlay_fs committed_db) ''activities.json'' = Some \<lparr>text_of = ''{}'', modified = 0\<rparr>
   \<and> the (underlay_fs (snd (save committed_db 2))) ''activities.json''
        = Some \<lparr>text_of = ''{1: {}}'', modified = 2\<rparr>"
  by (simp add: committed_db_def empty_db_def init_inmemory_filesystem_def save_def DB_FILES_def
      copy_file_if_def)


theorem save_copies_newer_witness:
  "save (empty_db\<lparr>read_only := True\<rparr>) 5 = (None, empty_db\<lparr>read_only := True\<rparr>)
   \<and> (\<exists>u'. save mirrored_db 5 = (None, mirrored_db\<lparr>underlay_fs := Some u'\<rparr>)
          \<and> u' ''activities.json'' = Some \<lparr>text_of = ''{1: {}}'', modified = 5\<rparr>
          \<and> u' ''index.json'' = Some \<lparr>text_of = ''{}'', modified = 0\<rparr>)"
proof -
  have ro: "read_only (empty_db\<lparr>read_only := True\<rparr>)" by simp
  have rw: "\<not> read_only mirrored_db \<and> underlay_fs mirrored_db = Some (the (underlay_fs empty_db))
      \<and> (\<forall>f \<in> set (map fst DB_FILES). overlay_fs mirrored_db f \<noteq> None)"
    by (simp add: mirrored_db_def empty_db_def init_inmemory_filesystem_def DB_FILES_def)
  from save_copies_newer [of "empty_db\<lparr>read_only := True\<rparr>" 5] ro
  have a: "save (empty_db\<lparr>read_only := True\<rparr>) 5 = (None, empty_db\<lparr>read_only := True\<rparr>)" by blast
  from save_copies_newer [of mirrored_db 5 "the (underlay_fs empty_db)"] rw
  have b: "save mirrored_db 5 =
      (None, mirrored_db\<lparr>underlay_fs := Some (\<lambda>f.
         if f \<in> set (map fst DB_FILES)
            \<and> (case the (underlay_fs empty_db) f of None \<Rightarrow> True
                | Some g \<Rightarrow> modified g < modified (the (overlay_fs mirrored_db f)))
         then Some \<lparr>text_of = text_of (the (overlay_fs mirrored_db f)), modified = 5\<rparr>
         else the (underlay_fs empty_db) f)\<rparr>)" by blast
  show ?thesis
    apply (rule conjI [OF a])
    apply (subst b)
    apply (rule exI, rule conjI, rule refl)
    apply (simp add: mirrored_db_def empty_db_def init_inmemory_filesystem_def DB_FILES_def)
    done
qed


end
